theory Spec2Isabelle
  imports Main "HOL-Library.AList" "HOL-Library.Sublist" "HOL-Library.Char_ord"
    "HOL-Library.List_Lexorder"
begin

section \<open>wau: a shallow embedding of \<^verbatim>\<open>wau.py\<close>\<close>

text \<open>
  The program keeps a manifest (a text file listing the installed addons), asks a remote
  catalog for the latest release of each addon, downloads the releases that differ from
  the installed ones and rewrites the manifest. The embedding follows \<^verbatim>\<open>wau.py\<close>
  function by function and keeps its names.

  Conventions of the model:
  \<^item> a Python \<^verbatim>\<open>str\<close> is a \<^typ>\<open>string\<close>; a \<^typ>\<open>char\<close> stands for one code point
    below 256, which covers ASCII and every white space character of that range;
  \<^item> a decoded JSON object is a record with one typed field per key the program reads;
  \<^item> an exception is a value of \<open>error\<close>, returned as \<open>Inl\<close> of a sum;
  \<^item> a Python \<^verbatim>\<open>dict\<close> is an association list in insertion order
    (\<^const>\<open>AList.update\<close> stores, \<^const>\<open>map_of\<close> looks up);
  \<^item> \<^verbatim>\<open>dateutil.parser.isoparse\<close> is a library function outside the repository and is a
    parameter \<open>isoparse\<close>: it fails on some strings and returns a date with or without a
    time zone on the others.
\<close>

subsection \<open>Exceptions\<close>

datatype error =
    OSError
  | ValueError
  | IndexError
  | KeyError
  | TypeError
  | AttributeError
  | ApiError int
  | ExtractError

subsection \<open>Python string operations used by the program\<close>

definition LF :: char where
  "LF = CHR 0x0A"

definition CR :: char where
  "CR = CHR 0x0D"

definition TAB :: char where
  "TAB = CHR 0x09"

text \<open>\<^verbatim>\<open>str.isspace\<close> on one code point below 256: the characters that \<^verbatim>\<open>str.split()\<close>
  and \<^verbatim>\<open>str.rstrip()\<close> treat as white space.\<close>

definition isspace :: "char \<Rightarrow> bool" where
  "isspace c = (of_char c \<in> set [9, 10, 11, 12, 13, 28, 29, 30, 31, 32, 133, 160 :: nat])"

text \<open>\<^verbatim>\<open>s.rstrip()\<close> and \<^verbatim>\<open>s.strip()\<close>.\<close>

definition rstrip :: "string \<Rightarrow> string" where
  "rstrip s = rev (dropWhile isspace (rev s))"

definition strip :: "string \<Rightarrow> string" where
  "strip s = dropWhile isspace (rstrip s)"

text \<open>\<^verbatim>\<open>s.split()\<close>: the maximal runs of characters that are not white space. The first
  argument of \<open>split_aux\<close> is the run read so far.\<close>

fun split_aux :: "string \<Rightarrow> string \<Rightarrow> string list" where
  "split_aux w [] = (if w = [] then [] else [w])"
| "split_aux w (c # cs) =
     (if isspace c then (if w = [] then split_aux [] cs else w # split_aux [] cs)
      else split_aux (w @ [c]) cs)"

definition split :: "string \<Rightarrow> string list" where
  "split s = split_aux [] s"

text \<open>\<^verbatim>\<open>s.replace(old, new)\<close>: every occurrence of \<open>old\<close>, left to right and without
  overlap, becomes \<open>new\<close>. With an empty \<open>old\<close> Python puts \<open>new\<close> before every character
  and at the end.\<close>

function replace :: "string \<Rightarrow> string \<Rightarrow> string \<Rightarrow> string" where
  "replace old new s =
     (if old = [] then new @ concat (map (\<lambda>c. c # new) s)
      else if s = [] then []
      else if prefix old s then new @ replace old new (drop (length old) s)
      else hd s # replace old new (tl s))"
  by pat_completeness auto
termination
  by (relation "measure (\<lambda>(old, new, s). length s)") (auto simp: neq_Nil_conv)

declare replace.simps [simp del]

text \<open>\<^verbatim>\<open>"{}".format(n)\<close> for an integer \<open>n\<close>: the decimal numeral, with a minus sign for a
  negative number.\<close>

definition digit_char :: "nat \<Rightarrow> char" where
  "digit_char d = char_of (48 + d)"

fun show_nat :: "nat \<Rightarrow> string" where
  "show_nat n = (if n < 10 then [digit_char n] else show_nat (n div 10) @ [digit_char (n mod 10)])"

declare show_nat.simps [simp del]

definition show_int :: "int \<Rightarrow> string" where
  "show_int i = (if i < 0 then CHR ''-'' # show_nat (nat (- i)) else show_nat (nat i))"

text \<open>\<^verbatim>\<open>int(s)\<close> for a string \<open>s\<close>: white space around the numeral is dropped, one sign is
  allowed, the digits may be grouped by single underscores, and anything else raises
  \<^verbatim>\<open>ValueError\<close>. The flag of \<open>digits_ok\<close> says that the previous character was a digit.\<close>

definition is_digit :: "char \<Rightarrow> bool" where
  "is_digit c = (48 \<le> (of_char c :: nat) \<and> (of_char c :: nat) \<le> 57)"

definition digit_val :: "char \<Rightarrow> int" where
  "digit_val c = int (of_char c) - 48"

fun digits_ok :: "bool \<Rightarrow> string \<Rightarrow> bool" where
  "digits_ok p [] = p"
| "digits_ok p (c # cs) =
     (if is_digit c then digits_ok True cs
      else if c = CHR ''_'' \<and> p then digits_ok False cs
      else False)"

definition parse_digits :: "string \<Rightarrow> error + int" where
  "parse_digits s =
     (if digits_ok False s
      then Inr (foldl (\<lambda>a c. 10 * a + digit_val c) 0 (filter (\<lambda>c. c \<noteq> CHR ''_'') s))
      else Inl ValueError)"

definition py_int :: "string \<Rightarrow> error + int" where
  "py_int s =
     (case strip s of
        [] \<Rightarrow> Inl ValueError
      | c # r \<Rightarrow>
          if c = CHR ''-'' then (case parse_digits r of Inl e \<Rightarrow> Inl e | Inr n \<Rightarrow> Inr (- n))
          else if c = CHR ''+'' then parse_digits r
          else parse_digits (c # r))"

text \<open>\<^verbatim>\<open>cols[i]\<close> on a list: \<^verbatim>\<open>IndexError\<close> out of range (the program uses the indices 0, 1
  and 2 only).\<close>

definition index :: "'a list \<Rightarrow> nat \<Rightarrow> error + 'a" where
  "index xs i = (if i < length xs then Inr (xs ! i) else Inl IndexError)"

subsection \<open>Catalog data\<close>

text \<open>One element of \<^verbatim>\<open>addon_info['latestFiles']\<close>, with the keys the program reads;
  \<open>modules\<close> holds the \<^verbatim>\<open>foldername\<close> of each module.\<close>

record release =
  fileName :: string
  downloadUrl :: string
  displayName :: string
  fileDate :: string
  releaseType :: int
  gameVersionFlavor :: string
  modules :: "string list"

record addon_info =
  name :: string
  latestFiles :: "release list"

subsection \<open>Release selection\<close>

text \<open>What \<^verbatim>\<open>isoparse\<close> returns: a \<^verbatim>\<open>datetime\<close> that carries a time zone or does not, at
  an instant of a linearly ordered type. Python orders two of them by their instants when
  both carry a time zone or neither does, and raises \<^verbatim>\<open>TypeError\<close> when one does and the
  other does not. \<open>later x y\<close> is \<^verbatim>\<open>x > y\<close>.\<close>

datatype 't datetime = Datetime (aware: bool) (instant: 't)

definition later :: "'t::linorder datetime \<Rightarrow> 't datetime \<Rightarrow> error + bool" where
  "later x y = (if aware x = aware y then Inr (instant x > instant y) else Inl TypeError)"

text \<open>The loop of \<^verbatim>\<open>get_latest_file\<close>, with its two variables \<open>latest_date\<close> and
  \<open>latest_file\<close>, both \<^verbatim>\<open>None\<close> at the start. \<open>isoparse\<close> returns \<open>None\<close> where the
  library raises \<^verbatim>\<open>ValueError\<close>; the function catches nothing.\<close>

fun get_latest_file_loop ::
  "(string \<Rightarrow> 't::linorder datetime option) \<Rightarrow> bool \<Rightarrow> string \<Rightarrow> release list
     \<Rightarrow> 't datetime option \<Rightarrow> release option \<Rightarrow> error + release option" where
  "get_latest_file_loop isoparse install_alpha game_version_flavor [] latest_date latest_file =
     Inr latest_file"
| "get_latest_file_loop isoparse install_alpha game_version_flavor (file # files)
       latest_date latest_file =
     (if gameVersionFlavor file \<noteq> game_version_flavor
      then get_latest_file_loop isoparse install_alpha game_version_flavor files
             latest_date latest_file
      else if \<not> install_alpha \<and> releaseType file \<noteq> 1
      then get_latest_file_loop isoparse install_alpha game_version_flavor files
             latest_date latest_file
      else
        (case isoparse (fileDate file) of
           None \<Rightarrow> Inl ValueError
         | Some file_date \<Rightarrow>
             (case latest_date of
                None \<Rightarrow>
                  get_latest_file_loop isoparse install_alpha game_version_flavor files
                    (Some file_date) (Some file)
              | Some d \<Rightarrow>
                  (case later file_date d of
                     Inl e \<Rightarrow> Inl e
                   | Inr newer \<Rightarrow>
                       if newer
                       then get_latest_file_loop isoparse install_alpha game_version_flavor
                              files (Some file_date) (Some file)
                       else get_latest_file_loop isoparse install_alpha game_version_flavor
                              files latest_date latest_file))))"

definition get_latest_file ::
  "(string \<Rightarrow> 't::linorder datetime option) \<Rightarrow> addon_info \<Rightarrow> bool \<Rightarrow> string
     \<Rightarrow> error + release option" where
  "get_latest_file isoparse addon_info install_alpha game_version_flavor =
     get_latest_file_loop isoparse install_alpha game_version_flavor (latestFiles addon_info)
       None None"

text \<open>\<^verbatim>\<open>get_version\<close>. The caller passes what \<^verbatim>\<open>get_latest_file\<close> returned, which may
  be \<^verbatim>\<open>None\<close>; subscripting \<^verbatim>\<open>None\<close> raises \<^verbatim>\<open>TypeError\<close>.\<close>

definition get_version :: "release option \<Rightarrow> error + string" where
  "get_version release =
     (case release of
        None \<Rightarrow> Inl TypeError
      | Some r \<Rightarrow> Inr (replace '' '' ''_'' (displayName r)))"

text \<open>The releases that pass the two filters of the loop, in catalog order.\<close>

definition applicable :: "bool \<Rightarrow> string \<Rightarrow> release \<Rightarrow> bool" where
  "applicable install_alpha game_version_flavor file =
     (gameVersionFlavor file = game_version_flavor \<and> (install_alpha \<or> releaseType file = 1))"

text \<open>The best release of a list of applicable ones, given the best one so far: what the
  loop computes, without the filters.\<close>

fun latest_of ::
  "(release \<Rightarrow> 't::linorder) \<Rightarrow> release option \<Rightarrow> release list \<Rightarrow> release option" where
  "latest_of d best [] = best"
| "latest_of d best (f # fs) =
     latest_of d
       (if (case best of None \<Rightarrow> True | Some b \<Rightarrow> d f > d b) then Some f else best) fs"

subsection \<open>The manifest\<close>

text \<open>One value of \<^verbatim>\<open>self.addons\<close>, and the \<^verbatim>\<open>WAU_Manifest\<close> object. The attribute
  \<^verbatim>\<open>self.version\<close> is assigned only inside the \<^verbatim>\<open>try\<close> block of the constructor;
  \<open>manifest_version\<close> is \<open>None\<close> while the object has no such attribute.\<close>

record addon =
  install_alpha :: bool
  version :: string

record WAU_Manifest =
  addons :: "(int \<times> addon) list"
  manifest_path :: string
  manifest_version :: "string option"

text \<open>The files the program reads and writes as text, on a POSIX system (a line ends
  with \<^verbatim>\<open>\n\<close> in the file as in the string written): a path has a content or does not
  exist.\<close>

type_synonym fs = "string \<Rightarrow> string option"

text \<open>Reading in text mode translates \<^verbatim>\<open>\r\n\<close> and \<^verbatim>\<open>\r\<close> to \<^verbatim>\<open>\n\<close>; iterating over
  the file yields the lines with their terminators.\<close>

fun universal_newlines :: "string \<Rightarrow> string" where
  "universal_newlines [] = []"
| "universal_newlines [c] = [if c = CR then LF else c]"
| "universal_newlines (c # d # cs) =
     (if c = CR \<and> d = LF then LF # universal_newlines cs
      else if c = CR then LF # universal_newlines (d # cs)
      else c # universal_newlines (d # cs))"

fun readlines_aux :: "string \<Rightarrow> string \<Rightarrow> string list" where
  "readlines_aux l [] = (if l = [] then [] else [l])"
| "readlines_aux l (c # cs) =
     (if c = LF then (l @ [LF]) # readlines_aux [] cs else readlines_aux (l @ [c]) cs)"

definition readlines :: "string \<Rightarrow> string list" where
  "readlines text = readlines_aux [] (universal_newlines text)"

text \<open>The body of the loop over the lines of the manifest file.\<close>

definition parse_line :: "(int \<times> addon) list \<Rightarrow> string \<Rightarrow> error + (int \<times> addon) list" where
  "parse_line entries line =
     (let cols = split line in
      case index cols 0 of Inl e \<Rightarrow> Inl e | Inr c0 \<Rightarrow>
      case py_int c0 of Inl e \<Rightarrow> Inl e | Inr addon_id \<Rightarrow>
      case index cols 1 of Inl e \<Rightarrow> Inl e | Inr c1 \<Rightarrow>
      case py_int c1 of Inl e \<Rightarrow> Inl e | Inr flag \<Rightarrow>
      case index cols 2 of Inl e \<Rightarrow> Inl e | Inr v \<Rightarrow>
      Inr (AList.update addon_id \<lparr>install_alpha = (flag \<noteq> 0), version = v\<rparr> entries))"

fun parse_lines :: "(int \<times> addon) list \<Rightarrow> string list \<Rightarrow> error + (int \<times> addon) list" where
  "parse_lines entries [] = Inr entries"
| "parse_lines entries (line # lines) =
     (case parse_line entries line of
        Inl e \<Rightarrow> Inl e
      | Inr entries' \<Rightarrow> parse_lines entries' lines)"

text \<open>\<^verbatim>\<open>WAU_Manifest.__init__\<close>. A file that cannot be opened raises \<^verbatim>\<open>OSError\<close>, which
  the constructor catches; the errors of parsing are not caught. \<^verbatim>\<open>f.readline()\<close>
  returns the empty string at the end of the file.\<close>

definition WAU_Manifest_init :: "fs \<Rightarrow> string \<Rightarrow> error + WAU_Manifest" where
  "WAU_Manifest_init fs base_path =
     (let path = base_path @ ''/wau_manifest.txt'' in
      case fs path of
        None \<Rightarrow> Inr \<lparr>addons = [], manifest_path = path, manifest_version = None\<rparr>
      | Some text \<Rightarrow>
          (let lines = readlines text;
               first = (case lines of [] \<Rightarrow> [] | l # _ \<Rightarrow> l)
           in case parse_lines [] (tl lines) of
                Inl e \<Rightarrow> Inl e
              | Inr entries \<Rightarrow>
                  Inr \<lparr>addons = entries, manifest_path = path,
                       manifest_version = Some (rstrip first)\<rparr>))"

definition load_manifest :: "fs \<Rightarrow> string \<Rightarrow> error + WAU_Manifest" where
  "load_manifest fs base_path = WAU_Manifest_init fs base_path"

text \<open>\<^verbatim>\<open>WAU_Manifest.update_version\<close>: \<^verbatim>\<open>self.addons[addon_id]\<close> raises \<^verbatim>\<open>KeyError\<close> for
  an unknown identifier; otherwise the entry's \<^verbatim>\<open>version\<close> is assigned.\<close>

definition update_version :: "WAU_Manifest \<Rightarrow> int \<Rightarrow> string \<Rightarrow> error + WAU_Manifest" where
  "update_version m addon_id v =
     (case map_of (addons m) addon_id of
        None \<Rightarrow> Inl KeyError
      | Some data \<Rightarrow> Inr (m\<lparr>addons := AList.update addon_id (data\<lparr>version := v\<rparr>) (addons m)\<rparr>))"

text \<open>\<^verbatim>\<open>WAU_Manifest.commit\<close> opens the manifest file for writing, which truncates it, and
  writes the version line and one line per entry. \<open>commit_states\<close> lists the states of
  the file system after the \<^verbatim>\<open>open\<close> and after each \<^verbatim>\<open>write\<close>; with a buffered
  file the writes reach the disk later and in the same order.\<close>

definition format_line :: "int \<times> addon \<Rightarrow> string" where
  "format_line kd =
     show_int (fst kd) @ '' '' @ show_int (if install_alpha (snd kd) then 1 else 0) @ '' ''
       @ version (snd kd) @ [LF]"

definition fs_open_w :: "string \<Rightarrow> fs \<Rightarrow> fs" where
  "fs_open_w path fs = fs(path \<mapsto> [])"

definition fs_write :: "string \<Rightarrow> string \<Rightarrow> fs \<Rightarrow> fs" where
  "fs_write path s fs = fs(path \<mapsto> (case fs path of None \<Rightarrow> s | Some t \<Rightarrow> t @ s))"

fun write_all :: "string \<Rightarrow> string list \<Rightarrow> fs \<Rightarrow> fs list" where
  "write_all path [] fs = []"
| "write_all path (s # ss) fs = fs_write path s fs # write_all path ss (fs_write path s fs)"

definition commit_states :: "WAU_Manifest \<Rightarrow> fs \<Rightarrow> fs list" where
  "commit_states m fs =
     (let opened = fs_open_w (manifest_path m) fs in
      case manifest_version m of
        None \<Rightarrow> [opened]
      | Some v \<Rightarrow>
          opened # write_all (manifest_path m) ((v @ [LF]) # map format_line (addons m)) opened)"

subsection \<open>The catalog, the network and the addons directory\<close>

text \<open>What the program cannot decide by itself is a parameter: the timestamp parser, the
  responses of the catalog (status code and decoded body), how the transfer of a release
  ends, which paths a \<^verbatim>\<open>shutil.rmtree\<close> removes, what \<^verbatim>\<open>ZipFile.extractall\<close> writes for
  an archive and whether it completes, and whether \<^verbatim>\<open>os.remove\<close> succeeds.\<close>

datatype transfer =
    Refused
  | Broken string
  | Complete string

record 't env =
  isoparse :: "string \<Rightarrow> 't datetime option"
  addon_response :: "int \<Rightarrow> int \<times> addon_info"
  timestamp_response :: "int \<times> string"
  transfer :: "release \<Rightarrow> transfer"
  rmtree_removes :: "string \<Rightarrow> string \<Rightarrow> bool"
  extractall :: "string \<Rightarrow> string \<Rightarrow> (string \<times> string) list \<times> bool"
  remove_ok :: "string \<Rightarrow> bool"

text \<open>The calls that leave the process, in the order they are made.\<close>

datatype event =
    Api_timestamp
  | Api_addon int
  | Thread_start int
  | Http_download string
  | Rmtree string
  | Extractall string
  | Remove string
  | Manifest_commit

record world =
  manifest :: WAU_Manifest
  files :: fs
  log :: "event list"

definition emit :: "event list \<Rightarrow> world \<Rightarrow> world" where
  "emit es w = w\<lparr>log := log w @ es\<rparr>"

definition commit :: "world \<Rightarrow> error option \<times> world" where
  "commit w =
     ((case manifest_version (manifest w) of None \<Rightarrow> Some AttributeError | Some _ \<Rightarrow> None),
      w\<lparr>files := last (commit_states (manifest w) (files w)), log := log w @ [Manifest_commit]\<rparr>)"

definition get_addon_info :: "'t env \<Rightarrow> int \<Rightarrow> error + addon_info" where
  "get_addon_info env addon_id =
     (if fst (addon_response env addon_id) \<noteq> 200
      then Inl (ApiError (fst (addon_response env addon_id)))
      else Inr (snd (addon_response env addon_id)))"

definition get_addon_database_version :: "'t env \<Rightarrow> error + string" where
  "get_addon_database_version env =
     (if fst (timestamp_response env) \<noteq> 200 then Inl (ApiError (fst (timestamp_response env)))
      else Inr (snd (timestamp_response env)))"

text \<open>\<^verbatim>\<open>os.path.join\<close> of two components on a POSIX system.\<close>

definition os_path_join :: "string \<Rightarrow> string \<Rightarrow> string" where
  "os_path_join a b =
     (if b \<noteq> [] \<and> hd b = CHR ''/'' then b
      else if a = [] \<or> last a = CHR ''/'' then a @ b
      else a @ ''/'' @ b)"

text \<open>\<^verbatim>\<open>shutil.rmtree\<close> removes files and writes none; which ones, the environment says
  (the resolution of the path, and where a failing removal stops).\<close>

definition rmtree :: "'t env \<Rightarrow> string \<Rightarrow> fs \<Rightarrow> fs" where
  "rmtree env path f = (\<lambda>q. if rmtree_removes env path q then None else f q)"

text \<open>\<^verbatim>\<open>erase_local\<close> removes the directory of every module and ignores what fails;
  reading \<^verbatim>\<open>release['modules']\<close> is outside its \<^verbatim>\<open>try\<close>.\<close>

definition erase_module :: "'t env \<Rightarrow> string \<Rightarrow> world \<Rightarrow> string \<Rightarrow> world" where
  "erase_module env addons_path w dir_name =
     (let path_to_module = os_path_join addons_path dir_name
      in (emit [Rmtree path_to_module] w)\<lparr>files := rmtree env path_to_module (files w)\<rparr>)"

definition erase_local :: "'t env \<Rightarrow> string \<Rightarrow> release option \<Rightarrow> world \<Rightarrow> error + world" where
  "erase_local env addons_path release w =
     (case release of
        None \<Rightarrow> Inl TypeError
      | Some r \<Rightarrow> Inr (foldl (erase_module env addons_path) w (modules r)))"

text \<open>\<^verbatim>\<open>download_release\<close> catches every exception of its body, the \<^verbatim>\<open>TypeError\<close> of a
  \<^verbatim>\<open>None\<close> release included, and returns \<^verbatim>\<open>None\<close> then. A transfer is refused before
  the target file is opened, breaks after the target has been opened for writing and a
  part of the data has been copied, or completes.\<close>

definition download_release ::
  "'t env \<Rightarrow> string \<Rightarrow> release option \<Rightarrow> world \<Rightarrow> string option \<times> world" where
  "download_release env addons_path release w =
     (case release of
        None \<Rightarrow> (None, w)
      | Some r \<Rightarrow>
          (let target_path = os_path_join addons_path (fileName r);
               w1 = emit [Http_download (downloadUrl r)] w
           in case transfer env r of
                Refused \<Rightarrow> (None, w1)
              | Broken part \<Rightarrow> (None, w1\<lparr>files := (files w1)(target_path \<mapsto> part)\<rparr>)
              | Complete data \<Rightarrow>
                  (Some target_path, w1\<lparr>files := (files w1)(target_path \<mapsto> data)\<rparr>)))"

text \<open>\<^verbatim>\<open>extract_release\<close> opens the archive at \<open>zip_path\<close> and extracts it into the addons
  directory; what it raises is not caught. The files written before a failure stay.\<close>

definition write_files :: "(string \<times> string) list \<Rightarrow> fs \<Rightarrow> fs" where
  "write_files written f = foldl (\<lambda>g pc. g(fst pc \<mapsto> snd pc)) f written"

definition extract_release ::
  "'t env \<Rightarrow> string \<Rightarrow> string \<Rightarrow> world \<Rightarrow> error option \<times> world" where
  "extract_release env addons_path zip_path w =
     (let w1 = emit [Extractall zip_path] w
      in case files w zip_path of
           None \<Rightarrow> (Some OSError, w1)
         | Some archive \<Rightarrow>
             (if snd (extractall env addons_path archive) then None else Some ExtractError,
              w1\<lparr>files := write_files (fst (extractall env addons_path archive)) (files w)\<rparr>))"

text \<open>\<^verbatim>\<open>delete_release_cache\<close> removes the downloaded file and logs a failure.\<close>

definition delete_release_cache :: "'t env \<Rightarrow> string \<Rightarrow> world \<Rightarrow> world" where
  "delete_release_cache env zip_path w =
     (let w1 = emit [Remove zip_path] w
      in if remove_ok env zip_path then w1\<lparr>files := (files w)(zip_path := None)\<rparr> else w1)"

subsection \<open>The update of one addon\<close>

text \<open>How a call of \<^verbatim>\<open>process_addon\<close> ends: the addon is up to date, it has been updated,
  the download failed (logged, the function returns), or an exception left the function
  and ended its thread.\<close>

datatype outcome = UpToDate | Done | Failed | Crashed error

definition process_addon ::
  "'t::linorder env \<Rightarrow> string \<Rightarrow> string \<Rightarrow> int \<Rightarrow> world \<Rightarrow> outcome \<times> world" where
  "process_addon env addons_path game_flavor addon_id w =
     (case map_of (addons (manifest w)) addon_id of
        None \<Rightarrow> (Crashed KeyError, w)
      | Some data \<Rightarrow>
          (let installed_version = version data;
               alpha = install_alpha data;
               w1 = emit [Api_addon addon_id] w
           in case get_addon_info env addon_id of
                Inl e \<Rightarrow> (Crashed e, w1)
              | Inr addon_info \<Rightarrow>
                  (case get_latest_file (isoparse env) addon_info alpha game_flavor of
                     Inl e \<Rightarrow> (Crashed e, w1)
                   | Inr latest_file \<Rightarrow>
                       (case get_version latest_file of
                          Inl e \<Rightarrow> (Crashed e, w1)
                        | Inr latest_version \<Rightarrow>
                            if latest_version \<noteq> installed_version then
                              (case download_release env addons_path latest_file w1 of
                                 (None, w2) \<Rightarrow> (Failed, w2)
                               | (Some zip_path, w2) \<Rightarrow>
                                   (case erase_local env addons_path latest_file w2 of
                                      Inl e \<Rightarrow> (Crashed e, w2)
                                    | Inr w3 \<Rightarrow>
                                        (case extract_release env addons_path zip_path w3 of
                                           (Some e, w4) \<Rightarrow> (Crashed e, w4)
                                         | (None, w4) \<Rightarrow>
                                             (let w5 = delete_release_cache env zip_path w4
                                              in case update_version (manifest w5) addon_id
                                                        latest_version of
                                                   Inl e \<Rightarrow> (Crashed e, w5)
                                                 | Inr m \<Rightarrow>
                                                     (case commit (w5\<lparr>manifest := m\<rparr>) of
                                                        (Some e, w6) \<Rightarrow> (Crashed e, w6)
                                                      | (None, w6) \<Rightarrow> (Done, w6))))))
                            else (UpToDate, w1)))))"

subsection \<open>The run\<close>

text \<open>The program starts one thread per entry of the manifest and joins them all. A thread
  reads and writes its own entry only, and \<^verbatim>\<open>update_version\<close> and \<^verbatim>\<open>commit\<close> run
  under one lock, so the threads are run here one after the other, in the order of the
  list of identifiers.\<close>

fun run_workers ::
  "'t::linorder env \<Rightarrow> string \<Rightarrow> string \<Rightarrow> int list \<Rightarrow> world
     \<Rightarrow> (int \<times> outcome) list \<times> world" where
  "run_workers env addons_path game_flavor [] w = ([], w)"
| "run_workers env addons_path game_flavor (addon_id # ids) w =
     (let r = process_addon env addons_path game_flavor addon_id (emit [Thread_start addon_id] w);
          rs = run_workers env addons_path game_flavor ids (snd r)
      in ((addon_id, fst r) # fst rs, snd rs))"

text \<open>The top level of the module, after the command line has been read. \<open>Inl\<close> is an
  exception that ends the program; \<open>Inr\<close> is a normal exit, by \<^verbatim>\<open>exit(0)\<close> or at the end
  of the script, with the outcome of every thread and the final state.\<close>

definition main ::
  "'t::linorder env \<Rightarrow> string \<Rightarrow> bool \<Rightarrow> string \<Rightarrow> fs
     \<Rightarrow> error + (int \<times> outcome) list \<times> world" where
  "main env addons_path forced_update game_flavor fs =
     (case load_manifest fs addons_path of
        Inl e \<Rightarrow> Inl e
      | Inr m \<Rightarrow>
          (case get_addon_database_version env of
             Inl e \<Rightarrow> Inl e
           | Inr api_db_version \<Rightarrow>
               (case manifest_version m of
                  None \<Rightarrow> Inl AttributeError
                | Some v \<Rightarrow>
                    (let w = \<lparr>manifest = m, files = fs, log = [Api_timestamp]\<rparr> in
                     if api_db_version = v \<and> \<not> forced_update then Inr ([], w)
                     else Inr (run_workers env addons_path game_flavor (map fst (addons m))
                                 (w\<lparr>manifest := m\<lparr>manifest_version := Some api_db_version\<rparr>\<rparr>))))))"

subsection \<open>What the entry map holds besides the versions\<close>

text \<open>The identifiers of the manifest in order, each with its \<^verbatim>\<open>install_alpha\<close> flag.\<close>

definition entry_flags :: "WAU_Manifest \<Rightarrow> (int \<times> bool) list" where
  "entry_flags m = map (\<lambda>kd. (fst kd, install_alpha (snd kd))) (addons m)"

subsection \<open>What the work on the addons directory leaves alone\<close>



subsection \<open>The text of a manifest file\<close>

text \<open>What the writes of \<^verbatim>\<open>commit\<close> add up to: the version line, then one line per
  entry. A version token that the parser reads back is not empty and has no white
  space.\<close>

definition serialize :: "string \<Rightarrow> (int \<times> addon) list \<Rightarrow> string" where
  "serialize v entries = v @ [LF] @ concat (map format_line entries)"

definition token_ok :: "string \<Rightarrow> bool" where
  "token_ok v = (v \<noteq> [] \<and> (\<forall>c \<in> set v. \<not> isspace c))"

subsection \<open>Example data\<close>

text \<open>A catalog entry with five releases: two stable retail releases of the same date, an
  older stable one, an alpha and a classic release.\<close>

definition r_old :: release where
  "r_old = \<lparr>fileName = ''bags-1.0.zip'', downloadUrl = ''https://cdn/bags-1.0.zip'',
     displayName = ''1 0'', fileDate = ''2020-01-01T00:00:00Z'', releaseType = 1,
     gameVersionFlavor = ''wow_retail'', modules = [''Bags'']\<rparr>"

definition r_new :: release where
  "r_new = r_old\<lparr>fileName := ''bags-1.1.zip'', downloadUrl := ''https://cdn/bags-1.1.zip'',
     displayName := ''1 1'', fileDate := ''2020-02-01T00:00:00Z''\<rparr>"

definition r_tie :: release where
  "r_tie = r_new\<lparr>displayName := ''1 1b''\<rparr>"

definition r_alpha :: release where
  "r_alpha = r_old\<lparr>displayName := ''2 0 alpha'', fileDate := ''2020-03-01T00:00:00Z'',
     releaseType := 3\<rparr>"

definition r_classic :: release where
  "r_classic = r_old\<lparr>displayName := ''1 13'', fileDate := ''2020-04-01T00:00:00Z'',
     gameVersionFlavor := ''wow_classic''\<rparr>"




definition r_atlas :: release where
  "r_atlas = \<lparr>fileName = ''atlas-3.0.zip'', downloadUrl = ''https://cdn/atlas-3.0.zip'',
     displayName = ''3 0'', fileDate = ''2020-03-15T00:00:00Z'', releaseType = 1,
     gameVersionFlavor = ''wow_retail'', modules = [''Atlas'']\<rparr>"

definition r_tab :: release where
  "r_tab = r_new\<lparr>displayName := [CHR ''1'', TAB, CHR ''1'']\<rparr>"

definition bags_info :: addon_info where
  "bags_info = \<lparr>name = ''Bags'', latestFiles = [r_old, r_classic, r_new, r_alpha, r_tie]\<rparr>"

text \<open>A second catalog entry has a classic release only. The catalog knows the identifiers 42
  and 7; the manifest files list one of them each.\<close>

definition classic_only_info :: addon_info where
  "classic_only_info = \<lparr>name = ''Atlas'', latestFiles = [r_classic]\<rparr>"

definition atlas_info :: addon_info where
  "atlas_info = \<lparr>name = ''Atlas'', latestFiles = [r_atlas]\<rparr>"




definition catalog0 :: "int \<Rightarrow> int \<times> addon_info" where
  "catalog0 i = (if i = 42 then (200, bags_info) else if i = 7 then (200, classic_only_info)
     else if i = 9 then (200, atlas_info)
     else (404, \<lparr>name = [], latestFiles = []\<rparr>))"

text \<open>A parser for the two shapes of timestamp of the examples, with and without the
  zone designator \<open>Z\<close>; timestamps of one shape are ordered as strings. The example
  environment completes every transfer, removes what lies under the directory given to
  \<^verbatim>\<open>rmtree\<close>, and extracts one file per archive.\<close>

definition isoparse0 :: "string \<Rightarrow> string datetime option" where
  "isoparse0 s =
     (if length s = 20 \<and> last s = CHR ''Z'' then Some (Datetime True (butlast s))
      else if length s = 19 then Some (Datetime False s)
      else None)"

definition env0 :: "string env" where
  "env0 = \<lparr>isoparse = isoparse0, addon_response = catalog0,
     timestamp_response = (200, ''2020-05-01''),
     transfer = (\<lambda>r. Complete (''PK '' @ fileName r)),
     rmtree_removes = (\<lambda>d q. prefix (d @ ''/'') q),
     extractall = (\<lambda>p archive. ([(p @ ''/Addon.toc'', archive)], True)),
     remove_ok = (\<lambda>z. True)\<rparr>"




definition env_same :: "string env" where
  "env_same = env0\<lparr>timestamp_response := (200, ''2020-04-01'')\<rparr>"

definition m42 :: WAU_Manifest where
  "m42 = \<lparr>addons = [(42, \<lparr>install_alpha = False, version = ''1_0''\<rparr>)],
     manifest_path = ''/wow/AddOns/wau_manifest.txt'', manifest_version = Some ''2020-04-01''\<rparr>"

definition m7 :: WAU_Manifest where
  "m7 = m42\<lparr>addons := [(7, \<lparr>install_alpha = False, version = ''1_0''\<rparr>)]\<rparr>"


definition fs42 :: fs where
  "fs42 = [''/wow/AddOns/wau_manifest.txt'' \<mapsto> ''2020-04-01'' @ [LF] @ ''42 0 1_0'' @ [LF]]"

definition fs7 :: fs where
  "fs7 = [''/wow/AddOns/wau_manifest.txt'' \<mapsto> ''2020-04-01'' @ [LF] @ ''7 0 1_0'' @ [LF]]"

definition m42_new :: WAU_Manifest where
  "m42_new = \<lparr>addons = [(42, \<lparr>install_alpha = False, version = ''1_1''\<rparr>)],
     manifest_path = ''/wow/AddOns/wau_manifest.txt'', manifest_version = Some ''2020-05-01''\<rparr>"

text \<open>A manifest whose entry has the empty string as its version.\<close>

definition m_blank :: WAU_Manifest where
  "m_blank = m42\<lparr>addons := [(42, \<lparr>install_alpha = False, version = []\<rparr>)]\<rparr>"

section \<open>Properties\<close>

subsection \<open>Release selection\<close>

lemma loop_latest_of:
  assumes "\<forall>f \<in> set (filter (applicable a g) fs). parse (fileDate f) = Some (Datetime z (t f))"
  shows "get_latest_file_loop parse a g fs (map_option (\<lambda>f. Datetime z (t f)) best) best
           = Inr (latest_of t best (filter (applicable a g) fs))"
  using assms
proof (induction fs arbitrary: best)
  case Nil
  show ?case by simp
next
  case (Cons f fs)
  have rest: "\<forall>f \<in> set (filter (applicable a g) fs). parse (fileDate f) = Some (Datetime z (t f))"
    using Cons.prems by simp
  show ?case
  proof (cases "applicable a g f")
    case False
    then show ?thesis using Cons.IH [OF rest, of best] by (auto simp: applicable_def)
  next
    case True
    then have p: "parse (fileDate f) = Some (Datetime z (t f))" using Cons.prems by simp
    show ?thesis
    proof (cases "case best of None \<Rightarrow> True | Some b \<Rightarrow> t f > t b")
      case newer: True
      then show ?thesis using True p Cons.IH [OF rest, of "Some f"]
        by (cases best) (auto simp: applicable_def later_def)
    next
      case older: False
      then show ?thesis using True p Cons.IH [OF rest, of best]
        by (cases best) (auto simp: applicable_def later_def)
    qed
  qed
qed








lemma get_latest_file_latest_of:
  assumes "\<forall>f \<in> set (filter (applicable a g) (latestFiles info)).
             parse (fileDate f) = Some (Datetime z (t f))"
  shows "get_latest_file parse info a g
           = Inr (latest_of t None (filter (applicable a g) (latestFiles info)))"
  using loop_latest_of [OF assms, of None] by (simp add: get_latest_file_def)




text \<open>The selection raises exactly when the dates of the kept releases do not all parse
  to dates of one kind.\<close>

lemma loop_error_kinds:
  "get_latest_file_loop parse a g fs ld lf = Inl e \<Longrightarrow> e = ValueError \<or> e = TypeError"
proof (induction fs arbitrary: ld lf)
  case Nil
  then show ?case by simp
next
  case (Cons f fs)
  then show ?case
    by (auto simp: later_def split: if_splits option.splits sum.splits)
qed

lemma loop_Inr_kinds:
  "get_latest_file_loop parse a g fs (Some d0) lf = Inr res \<Longrightarrow>
     \<forall>f \<in> set (filter (applicable a g) fs). \<exists>d. parse (fileDate f) = Some d \<and> aware d = aware d0"
proof (induction fs arbitrary: d0 lf)
  case Nil
  show ?case by simp
next
  case (Cons f fs)
  show ?case
  proof (cases "applicable a g f")
    case False
    then have "get_latest_file_loop parse a g fs (Some d0) lf = Inr res"
      using Cons.prems by (auto simp: applicable_def split: if_splits)
    from Cons.IH [OF this] False show ?thesis by simp
  next
    case True
    from True Cons.prems obtain d where d: "parse (fileDate f) = Some d"
      by (cases "parse (fileDate f)") (auto simp: applicable_def)
    from True Cons.prems d have k: "aware d = aware d0"
      by (auto simp: applicable_def later_def split: if_splits)
    from True Cons.prems d k
    have "get_latest_file_loop parse a g fs (Some d) (Some f) = Inr res
        \<or> get_latest_file_loop parse a g fs (Some d0) lf = Inr res"
      by (auto simp: applicable_def later_def split: if_splits)
    then have "\<forall>f \<in> set (filter (applicable a g) fs).
                 \<exists>d'. parse (fileDate f) = Some d' \<and> aware d' = aware d0"
      using Cons.IH [of d "Some f"] Cons.IH [of d0 lf] k by auto
    with True d k show ?thesis by simp
  qed
qed

lemma loop_None_Inr_kinds:
  "get_latest_file_loop parse a g fs None None = Inr res \<Longrightarrow>
     \<exists>z. \<forall>f \<in> set (filter (applicable a g) fs). \<exists>d. parse (fileDate f) = Some d \<and> aware d = z"
proof (induction fs)
  case Nil
  show ?case by simp
next
  case (Cons f fs)
  show ?case
  proof (cases "applicable a g f")
    case False
    then have "get_latest_file_loop parse a g fs None None = Inr res"
      using Cons.prems by (auto simp: applicable_def split: if_splits)
    from Cons.IH [OF this] False show ?thesis by simp
  next
    case True
    from True Cons.prems obtain d where d: "parse (fileDate f) = Some d"
      by (cases "parse (fileDate f)") (auto simp: applicable_def)
    from True Cons.prems d have "get_latest_file_loop parse a g fs (Some d) (Some f) = Inr res"
      by (auto simp: applicable_def)
    from loop_Inr_kinds [OF this] True d show ?thesis by auto
  qed
qed

lemma get_latest_file_returns_iff:
  "(\<exists>res. get_latest_file parse info a g = Inr res) \<longleftrightarrow>
   (\<exists>z. \<forall>f \<in> set (filter (applicable a g) (latestFiles info)).
           \<exists>d. parse (fileDate f) = Some d \<and> aware d = z)"
proof
  assume "\<exists>res. get_latest_file parse info a g = Inr res"
  then show "\<exists>z. \<forall>f \<in> set (filter (applicable a g) (latestFiles info)).
           \<exists>d. parse (fileDate f) = Some d \<and> aware d = z"
    using loop_None_Inr_kinds [of parse a g "latestFiles info"]
    by (auto simp: get_latest_file_def)
next
  assume "\<exists>z. \<forall>f \<in> set (filter (applicable a g) (latestFiles info)).
           \<exists>d. parse (fileDate f) = Some d \<and> aware d = z"
  then obtain z where z: "\<forall>f \<in> set (filter (applicable a g) (latestFiles info)).
           \<exists>d. parse (fileDate f) = Some d \<and> aware d = z" by blast
  have "\<forall>f \<in> set (filter (applicable a g) (latestFiles info)).
          parse (fileDate f) = Some (Datetime z (instant (the (parse (fileDate f)))))"
  proof
    fix f assume "f \<in> set (filter (applicable a g) (latestFiles info))"
    with z obtain d where "parse (fileDate f) = Some d" "aware d = z" by blast
    then show "parse (fileDate f) = Some (Datetime z (instant (the (parse (fileDate f)))))"
      by (cases d) simp
  qed
  from get_latest_file_latest_of [OF this] show "\<exists>res. get_latest_file parse info a g = Inr res"
    by blast
qed

lemma get_latest_file_error_kinds:
  "get_latest_file parse info a g = Inl e \<Longrightarrow> e = ValueError \<or> e = TypeError"
  using loop_error_kinds [of parse a g "latestFiles info" None None e]
  by (simp add: get_latest_file_def)

subsection \<open>The version token\<close>

lemma replace_single: "replace [a] [b] s = map (\<lambda>c. if c = a then b else c) s"
proof (induction s)
  case Nil
  show ?case by (simp add: replace.simps [of "[a]" "[b]" "[]"])
next
  case (Cons c cs)
  then show ?case by (auto simp: replace.simps [of "[a]" "[b]" "c # cs"])
qed

text \<open>
  Claim C5, as the code has it. The token is the display name with every space
  character (code point 32) replaced by an underscore, one for one; every other
  character stays, a tab or another white space character included. So the token is a
  function of the display name, and the display name \<open>1 1\<close> gives \<open>1_1\<close>.
\<close>

theorem get_version_replaces_spaces:
  "get_version (Some r) =
     Inr (map (\<lambda>c. if c = CHR '' '' then CHR ''_'' else c) (displayName r))
   \<and> get_version (Some (r\<lparr>displayName := ''1 1''\<rparr>)) = Inr ''1_1''"
  by (simp add: get_version_def replace_single)

text \<open>The token of a display name with a tab keeps the tab, which is white space.\<close>

theorem get_version_keeps_tab:
  "get_version (Some r_tab) = Inr [CHR ''1'', TAB, CHR ''1''] \<and> isspace TAB"
  by (simp add: get_version_def replace_single r_tab_def r_new_def r_old_def TAB_def isspace_def)

subsection \<open>Numerals, columns and lines\<close>

lemma of_char_digit_char: "d < 10 \<Longrightarrow> (of_char (digit_char d) :: nat) = 48 + d"
  by (simp add: digit_char_def)

lemma is_digit_digit_char: "d < 10 \<Longrightarrow> is_digit (digit_char d)"
  by (simp add: is_digit_def of_char_digit_char)

lemma digit_val_digit_char: "d < 10 \<Longrightarrow> digit_val (digit_char d) = int d"
  by (simp add: digit_val_def of_char_digit_char)

lemma is_digit_not_space: "is_digit c \<Longrightarrow> \<not> isspace c"
  by (auto simp: is_digit_def isspace_def)

lemma is_digit_not_sign: "is_digit c \<Longrightarrow> c \<noteq> CHR ''-'' \<and> c \<noteq> CHR ''+'' \<and> c \<noteq> CHR ''_''"
  by (auto simp: is_digit_def)

lemma show_nat_digits: "\<forall>c \<in> set (show_nat n). is_digit c"
proof (induction n rule: show_nat.induct)
  case (1 n)
  show ?case
  proof (cases "n < 10")
    case True
    then show ?thesis by (simp add: show_nat.simps [of n] is_digit_digit_char)
  next
    case False
    with 1 show ?thesis by (simp add: show_nat.simps [of n] is_digit_digit_char)
  qed
qed

lemma show_nat_not_Nil: "show_nat n \<noteq> []"
  by (simp add: show_nat.simps [of n])

lemma show_nat_value:
  "foldl (\<lambda>a c. 10 * a + digit_val c) 0 (show_nat n) = int n"
proof (induction n rule: show_nat.induct)
  case (1 n)
  show ?case
  proof (cases "n < 10")
    case True
    then show ?thesis by (simp add: show_nat.simps [of n] digit_val_digit_char)
  next
    case False
    with 1 have "foldl (\<lambda>a c. 10 * a + digit_val c) 0 (show_nat (n div 10)) = int (n div 10)"
      by simp
    with False show ?thesis
      by (simp add: show_nat.simps [of n] digit_val_digit_char zdiv_int zmod_int)
  qed
qed

lemma digits_ok_digits: "\<forall>c \<in> set s. is_digit c \<Longrightarrow> digits_ok p s = (p \<or> s \<noteq> [])"
  by (induction s arbitrary: p) auto

lemma filter_digits: "\<forall>c \<in> set s. is_digit c \<Longrightarrow> filter (\<lambda>c. c \<noteq> CHR ''_'') s = s"
  by (induction s) (auto dest: is_digit_not_sign)

lemma parse_digits_show_nat: "parse_digits (show_nat n) = Inr (int n)"
  using show_nat_digits [of n]
  by (simp add: parse_digits_def digits_ok_digits filter_digits show_nat_not_Nil show_nat_value)

lemma dropWhile_none: "\<forall>c \<in> set s. \<not> P c \<Longrightarrow> dropWhile P s = s"
  by (cases s) auto

lemma strip_no_space: "\<forall>c \<in> set s. \<not> isspace c \<Longrightarrow> strip s = s"
  by (simp add: strip_def rstrip_def dropWhile_none)

lemma show_int_no_space: "\<forall>c \<in> set (show_int i). \<not> isspace c"
  using show_nat_digits [of "nat i"] show_nat_digits [of "nat (- i)"]
  by (auto simp: show_int_def dest: is_digit_not_space) (simp add: isspace_def)

lemma show_int_not_Nil: "show_int i \<noteq> []"
  by (simp add: show_int_def show_nat_not_Nil)

lemma py_int_show_int: "py_int (show_int i) = Inr i"
proof (cases "i < 0")
  case True
  then show ?thesis
    using show_int_no_space [of i]
    by (simp add: py_int_def strip_no_space) (simp add: show_int_def parse_digits_show_nat)
next
  case False
  obtain c r where cr: "show_nat (nat i) = c # r"
    using show_nat_not_Nil [of "nat i"] by (cases "show_nat (nat i)") auto
  then have "is_digit c" using show_nat_digits [of "nat i"] by simp
  then have "c \<noteq> CHR ''-''" "c \<noteq> CHR ''+''" by (auto dest: is_digit_not_sign)
  moreover have "parse_digits (c # r) = Inr i"
    using parse_digits_show_nat [of "nat i"] False by (simp add: cr)
  moreover have "strip (show_int i) = c # r"
    using show_int_no_space [of i] False by (simp add: strip_no_space) (simp add: show_int_def cr)
  ultimately show ?thesis by (simp add: py_int_def)
qed

lemma split_aux_word:
  "\<forall>c \<in> set u. \<not> isspace c \<Longrightarrow> split_aux w (u @ rest) = split_aux (w @ u) rest"
  by (induction u arbitrary: w) auto

lemma split_three:
  assumes "\<forall>c \<in> set a. \<not> isspace c" "a \<noteq> []"
    and "\<forall>c \<in> set b. \<not> isspace c" "b \<noteq> []"
    and "\<forall>c \<in> set v. \<not> isspace c" "v \<noteq> []"
  shows "split (a @ '' '' @ b @ '' '' @ v @ [LF]) = [a, b, v]"
proof -
  have sp: "isspace CHR '' ''" "isspace LF" by (simp_all add: isspace_def LF_def)
  have "split (a @ '' '' @ b @ '' '' @ v @ [LF]) = split_aux a (CHR '' '' # b @ '' '' @ v @ [LF])"
    using split_aux_word [OF assms(1), of "[]"] by (simp add: split_def)
  also have "\<dots> = a # split_aux [] (b @ '' '' @ v @ [LF])"
    using assms(2) sp by simp
  also have "split_aux [] (b @ '' '' @ v @ [LF]) = split_aux b (CHR '' '' # v @ [LF])"
    using split_aux_word [OF assms(3), of "[]"] by simp
  also have "\<dots> = b # split_aux [] (v @ [LF])"
    using assms(4) sp by simp
  also have "split_aux [] (v @ [LF]) = split_aux v [LF]"
    using split_aux_word [OF assms(5), of "[]" "[LF]"] by simp
  also have "\<dots> = [v]"
    using assms(6) sp by simp
  finally show ?thesis .
qed

lemma parse_line_format_line:
  assumes "token_ok (version d)"
  shows "parse_line entries (format_line (k, d)) = Inr (AList.update k d entries)"
proof -
  let ?f = "show_int (if install_alpha d then 1 else 0)"
  have "split (format_line (k, d)) = [show_int k, ?f, version d]"
    unfolding format_line_def fst_conv snd_conv
    using assms
    by (intro split_three show_int_no_space show_int_not_Nil) (simp_all add: token_ok_def)
  then show ?thesis
    using py_int_show_int [of k] py_int_show_int [of "if install_alpha d then 1 else 0"]
    by (cases d) (simp add: parse_line_def index_def)
qed

lemma update_fresh: "k \<notin> fst ` set xs \<Longrightarrow> AList.update k v xs = xs @ [(k, v)]"
  by (induction xs) auto

lemma parse_lines_format:
  assumes "distinct (map fst (acc @ xs))" "\<forall>kd \<in> set xs. token_ok (version (snd kd))"
  shows "parse_lines acc (map format_line xs) = Inr (acc @ xs)"
  using assms
proof (induction xs arbitrary: acc)
  case Nil
  show ?case by simp
next
  case (Cons kd xs)
  obtain k d where kd: "kd = (k, d)" by (cases kd)
  have fresh: "k \<notin> fst ` set acc" using Cons.prems(1) kd by auto
  have ok: "token_ok (version d)" using Cons.prems(2) kd by simp
  have "parse_lines (acc @ [(k, d)]) (map format_line xs) = Inr ((acc @ [(k, d)]) @ xs)"
    using Cons.prems kd by (intro Cons.IH) auto
  then show ?case
    using parse_line_format_line [OF ok, of acc k] update_fresh [OF fresh, of d]
    by (simp add: kd)
qed

lemma universal_newlines_id: "CR \<notin> set s \<Longrightarrow> universal_newlines s = s"
  by (induction s rule: universal_newlines.induct) auto

lemma readlines_aux_line:
  "LF \<notin> set u \<Longrightarrow> readlines_aux l (u @ LF # rest) = (l @ u @ [LF]) # readlines_aux [] rest"
  by (induction u arbitrary: l) auto

lemma format_line_shape:
  assumes "token_ok (version (snd kd))"
  shows "\<exists>u. format_line kd = u @ [LF] \<and> LF \<notin> set u \<and> CR \<notin> set u"
proof -
  let ?u = "show_int (fst kd) @ '' '' @ show_int (if install_alpha (snd kd) then 1 else 0) @ '' ''
              @ version (snd kd)"
  have sp: "isspace LF" "isspace CR" by (simp_all add: isspace_def LF_def CR_def)
  have "\<forall>c \<in> set ?u. c = CHR '' '' \<or> \<not> isspace c"
    using assms show_int_no_space by (auto simp: token_ok_def)
  moreover have "LF \<noteq> CHR '' ''" "CR \<noteq> CHR '' ''" by (simp_all add: LF_def CR_def)
  ultimately have "LF \<notin> set ?u \<and> CR \<notin> set ?u" using sp by blast
  moreover have "format_line kd = ?u @ [LF]" by (simp add: format_line_def)
  ultimately show ?thesis by blast
qed

lemma readlines_aux_lines:
  assumes "\<forall>kd \<in> set xs. token_ok (version (snd kd))"
  shows "readlines_aux [] (concat (map format_line xs)) = map format_line xs"
  using assms
proof (induction xs)
  case Nil
  show ?case by simp
next
  case (Cons kd xs)
  then obtain u where u: "format_line kd = u @ [LF]" "LF \<notin> set u"
    using format_line_shape [of kd] by auto
  from Cons have "readlines_aux [] (concat (map format_line xs)) = map format_line xs" by simp
  then show ?case
    using readlines_aux_line [OF u(2), of "[]" "concat (map format_line xs)"] u(1) by simp
qed

lemma no_CR_lines:
  assumes "\<forall>kd \<in> set xs. token_ok (version (snd kd))"
  shows "CR \<notin> set (concat (map format_line xs))"
  using assms
proof (induction xs)
  case Nil
  show ?case by simp
next
  case (Cons kd xs)
  then obtain u where u: "format_line kd = u @ [LF]" "CR \<notin> set u"
    using format_line_shape [of kd] by auto
  have "LF \<noteq> CR" by (simp add: LF_def CR_def)
  with Cons u show ?case by simp
qed

subsection \<open>Writing and reading the manifest file\<close>

lemma write_all_states:
  assumes "fs0 p = Some t0"
  shows "\<forall>s \<in> set (write_all p ss fs0).
           (\<exists>t. s p = Some t \<and> prefix t (t0 @ concat ss)) \<and> (\<forall>q. q \<noteq> p \<longrightarrow> s q = fs0 q)"
  using assms
proof (induction ss arbitrary: fs0 t0)
  case Nil
  show ?case by simp
next
  case (Cons x ss)
  let ?fs1 = "fs_write p x fs0"
  have w: "?fs1 p = Some (t0 @ x)" "\<forall>q. q \<noteq> p \<longrightarrow> ?fs1 q = fs0 q"
    using Cons.prems by (simp_all add: fs_write_def)
  from Cons.IH [of ?fs1 "t0 @ x"] w
  have "\<forall>s \<in> set (write_all p ss ?fs1).
           (\<exists>t. s p = Some t \<and> prefix t (t0 @ concat (x # ss))) \<and> (\<forall>q. q \<noteq> p \<longrightarrow> s q = fs0 q)"
    by simp
  moreover have "prefix (t0 @ x) (t0 @ concat (x # ss))" by simp
  ultimately show ?case using w by simp
qed

lemma write_all_last:
  assumes "fs0 p = Some t0"
  shows "last (fs0 # write_all p ss fs0) p = Some (t0 @ concat ss)"
  using assms
proof (induction ss arbitrary: fs0 t0)
  case Nil
  then show ?case by simp
next
  case (Cons x ss)
  have "fs_write p x fs0 p = Some (t0 @ x)" using Cons.prems by (simp add: fs_write_def)
  with Cons.IH [of "fs_write p x fs0" "t0 @ x"] show ?case by simp
qed

lemma commit_states_text:
  assumes "manifest_version m = Some v"
  shows "last (commit_states m fs) (manifest_path m) = Some (serialize v (addons m))"
  using write_all_last [of "fs_open_w (manifest_path m) fs" "manifest_path m" "[]"
          "(v @ [LF]) # map format_line (addons m)"] assms
  by (simp add: commit_states_def fs_open_w_def serialize_def Let_def)

text \<open>
  Claim C2, as the code has it. \<^verbatim>\<open>commit\<close> rewrites the manifest file in place: the
  first state of the file is the empty one, the last one holds the whole text, every
  state in between holds a prefix of it, and no other path is written, so there is no
  temporary file and no rename.
\<close>

theorem commit_in_place:
  assumes "manifest_version m = Some v"
  shows "hd (commit_states m fs) (manifest_path m) = Some []
       \<and> last (commit_states m fs) (manifest_path m) = Some (serialize v (addons m))
       \<and> (\<forall>s \<in> set (commit_states m fs).
            (\<exists>t. s (manifest_path m) = Some t \<and> prefix t (serialize v (addons m)))
            \<and> (\<forall>q. q \<noteq> manifest_path m \<longrightarrow> s q = fs q))
       \<and> files (snd (commit \<lparr>manifest = m, files = fs, log = l\<rparr>)) = last (commit_states m fs)"
proof -
  let ?p = "manifest_path m"
  let ?o = "fs_open_w ?p fs"
  have o: "?o ?p = Some []" "\<forall>q. q \<noteq> ?p \<longrightarrow> ?o q = fs q" by (simp_all add: fs_open_w_def)
  have st: "commit_states m fs = ?o # write_all ?p ((v @ [LF]) # map format_line (addons m)) ?o"
    using assms by (simp add: commit_states_def Let_def)
  from write_all_states [of ?o ?p "[]" "(v @ [LF]) # map format_line (addons m)"] o
  have "\<forall>s \<in> set (write_all ?p ((v @ [LF]) # map format_line (addons m)) ?o).
          (\<exists>t. s ?p = Some t \<and> prefix t (serialize v (addons m))) \<and> (\<forall>q. q \<noteq> ?p \<longrightarrow> s q = fs q)"
    by (simp add: serialize_def)
  then have "\<forall>s \<in> set (commit_states m fs).
          (\<exists>t. s ?p = Some t \<and> prefix t (serialize v (addons m))) \<and> (\<forall>q. q \<noteq> ?p \<longrightarrow> s q = fs q)"
    unfolding st using o by simp
  moreover have "hd (commit_states m fs) ?p = Some []" unfolding st using o by simp
  moreover note commit_states_text [OF assms, of fs]
  moreover have "files (snd (commit \<lparr>manifest = m, files = fs, log = l\<rparr>)) = last (commit_states m fs)"
    by (simp add: commit_def)
  ultimately show ?thesis by blast
qed

theorem commit_in_place_witness:
  "manifest_version m42_new = Some ''2020-05-01''
   \<and> hd (commit_states m42_new fs42) (manifest_path m42_new) = Some []
   \<and> last (commit_states m42_new fs42) (manifest_path m42_new)
       = Some (serialize ''2020-05-01'' (addons m42_new))
   \<and> serialize ''2020-05-01'' (addons m42_new) = ''2020-05-01'' @ [LF] @ ''42 0 1_1'' @ [LF]"
proof -
  have v: "manifest_version m42_new = Some ''2020-05-01''"
    by (simp add: m42_new_def)
  have t: "serialize ''2020-05-01'' (addons m42_new) = ''2020-05-01'' @ [LF] @ ''42 0 1_1'' @ [LF]"
    by code_simp
  from commit_in_place [OF v, of fs42 "[]"] v t show ?thesis by blast
qed

text \<open>While the manifest with version 1_1 is committed over the file that holds version
  1_0, the file is first empty and then holds the version line only.\<close>

theorem commit_shows_truncated_file:
  "fs42 ''/wow/AddOns/wau_manifest.txt'' = Some (''2020-04-01'' @ [LF] @ ''42 0 1_0'' @ [LF])
   \<and> manifest_path m42_new = ''/wow/AddOns/wau_manifest.txt''
   \<and> length (commit_states m42_new fs42) = 3
   \<and> (commit_states m42_new fs42 ! 0) ''/wow/AddOns/wau_manifest.txt'' = Some []
   \<and> (commit_states m42_new fs42 ! 1) ''/wow/AddOns/wau_manifest.txt''
       = Some (''2020-05-01'' @ [LF])
   \<and> (commit_states m42_new fs42 ! 2) ''/wow/AddOns/wau_manifest.txt''
       = Some (''2020-05-01'' @ [LF] @ ''42 0 1_1'' @ [LF])"
  by code_simp

lemma load_serialized:
  assumes "fs (base @ ''/wau_manifest.txt'') = Some (serialize v xs)"
    and "\<forall>c \<in> set v. \<not> isspace c"
    and "distinct (map fst xs)"
    and "\<forall>kd \<in> set xs. token_ok (version (snd kd))"
  shows "load_manifest fs base
           = Inr \<lparr>addons = xs, manifest_path = base @ ''/wau_manifest.txt'', manifest_version = Some v\<rparr>"
proof -
  have sp: "isspace LF" "isspace CR" "LF \<noteq> CR" by (simp_all add: isspace_def LF_def CR_def)
  have nv: "LF \<notin> set v" "CR \<notin> set v" using assms(2) sp by auto
  have "CR \<notin> set (serialize v xs)"
    using nv no_CR_lines [OF assms(4)] sp by (simp add: serialize_def)
  then have "readlines (serialize v xs) = readlines_aux [] (serialize v xs)"
    by (simp add: readlines_def universal_newlines_id)
  also have "\<dots> = (v @ [LF]) # map format_line xs"
    using readlines_aux_line [OF nv(1), of "[]" "concat (map format_line xs)"]
      readlines_aux_lines [OF assms(4)]
    by (simp add: serialize_def)
  finally have lines: "readlines (serialize v xs) = (v @ [LF]) # map format_line xs" .
  have "rstrip (v @ [LF]) = v"
    using assms(2) sp by (simp add: rstrip_def dropWhile_none)
  moreover have "parse_lines [] (map format_line xs) = Inr xs"
    using parse_lines_format [of "[]" xs] assms(3,4) by simp
  ultimately show ?thesis
    using assms(1) lines by (simp add: load_manifest_def WAU_Manifest_init_def Let_def)
qed

text \<open>
  Claim C8, as the code has it. For a manifest with distinct identifiers, whose catalog
  version is set and has no white space, and whose installed versions are not empty and
  have no white space, \<^verbatim>\<open>commit\<close> followed by loading gives the same manifest back:
  the catalog version, the entries in their order, their flags and their versions.
\<close>

theorem commit_load_roundtrip:
  assumes "manifest_version m = Some v" and "\<forall>c \<in> set v. \<not> isspace c"
    and "distinct (map fst (addons m))"
    and "\<forall>kd \<in> set (addons m). token_ok (version (snd kd))"
    and "manifest_path m = base @ ''/wau_manifest.txt''"
  shows "fst (commit \<lparr>manifest = m, files = fs, log = l\<rparr>) = None
       \<and> load_manifest (files (snd (commit \<lparr>manifest = m, files = fs, log = l\<rparr>))) base = Inr m"
proof -
  let ?fs = "files (snd (commit \<lparr>manifest = m, files = fs, log = l\<rparr>))"
  have "?fs (base @ ''/wau_manifest.txt'') = Some (serialize v (addons m))"
    using commit_states_text [OF assms(1), of fs] assms(5) by (simp add: commit_def)
  with load_serialized [of ?fs base v "addons m"] assms(2,3,4)
  have "load_manifest ?fs base
          = Inr \<lparr>addons = addons m, manifest_path = manifest_path m, manifest_version = manifest_version m\<rparr>"
    using assms(1,5) by simp
  moreover have "fst (commit \<lparr>manifest = m, files = fs, log = l\<rparr>) = None"
    using assms(1) by (simp add: commit_def)
  ultimately show ?thesis by simp
qed

theorem commit_load_roundtrip_witness:
  "fst (commit \<lparr>manifest = m42_new, files = fs42, log = []\<rparr>) = None
   \<and> load_manifest (files (snd (commit \<lparr>manifest = m42_new, files = fs42, log = []\<rparr>)))
        ''/wow/AddOns'' = Inr m42_new"
proof -
  have "\<forall>c \<in> set ''2020-05-01''. \<not> isspace c"
    by (simp add: isspace_def)
  moreover have "\<forall>kd \<in> set (addons m42_new). token_ok (version (snd kd))"
    by (simp add: m42_new_def token_ok_def isspace_def)
  moreover have "manifest_version m42_new = Some ''2020-05-01''"
    "distinct (map fst (addons m42_new))"
    "manifest_path m42_new = ''/wow/AddOns'' @ ''/wau_manifest.txt''"
    by (simp_all add: m42_new_def)
  ultimately show ?thesis
    using commit_load_roundtrip [of m42_new "''2020-05-01''" "''/wow/AddOns''" fs42 "[]"]
    by blast
qed

text \<open>The empty string has no white space, and the line written for it has two columns
  only: loading the committed file raises \<^verbatim>\<open>IndexError\<close>.\<close>

theorem blank_version_breaks_roundtrip:
  "manifest_version m_blank = Some ''2020-04-01''
   \<and> addons m_blank = [(42, \<lparr>install_alpha = False, version = []\<rparr>)]
   \<and> filter isspace ''2020-04-01'' = []
   \<and> fst (commit \<lparr>manifest = m_blank, files = fs42, log = []\<rparr>) = None
   \<and> files (snd (commit \<lparr>manifest = m_blank, files = fs42, log = []\<rparr>))
        ''/wow/AddOns/wau_manifest.txt'' = Some (''2020-04-01'' @ [LF] @ ''42 0 '' @ [LF])
   \<and> load_manifest (files (snd (commit \<lparr>manifest = m_blank, files = fs42, log = []\<rparr>)))
        ''/wow/AddOns'' = Inl IndexError"
  by code_simp

subsection \<open>Frame lemmas\<close>

lemma emit_simps [simp]:
  "manifest (emit es w) = manifest w" "files (emit es w) = files w" "log (emit es w) = log w @ es"
  by (simp_all add: emit_def)

lemma commit_manifest [simp]: "manifest (snd (commit w)) = manifest w"
  by (simp add: commit_def)

lemma commit_eq: "commit w = (e, w') \<Longrightarrow> manifest w' = manifest w"
  using commit_manifest [of w] by simp

lemma erase_modules_manifest [simp]:
  "manifest (foldl (erase_module env p) w ds) = manifest w"
  by (induction ds arbitrary: w) (simp_all add: erase_module_def Let_def)

lemma erase_modules_log [simp]:
  "log (foldl (erase_module env p) w ds) = log w @ map (\<lambda>d. Rmtree (os_path_join p d)) ds"
  by (induction ds arbitrary: w) (simp_all add: erase_module_def Let_def)







lemma download_release_manifest [simp]:
  "manifest (snd (download_release env p r w)) = manifest w"
  by (simp add: download_release_def Let_def split: option.splits transfer.splits)

lemma download_release_eq:
  "download_release env p r w = (z, w') \<Longrightarrow> manifest w' = manifest w"
  using download_release_manifest [of env p r w] by simp

lemma erase_local_manifest:
  "erase_local env p r w = Inr w' \<Longrightarrow> manifest w' = manifest w"
  by (auto simp: erase_local_def split: option.splits)

lemma extract_release_manifest [simp]:
  "manifest (snd (extract_release env p z w)) = manifest w"
  by (simp add: extract_release_def Let_def split: option.splits)

lemma extract_release_eq:
  "extract_release env p z w = (e, w') \<Longrightarrow> manifest w' = manifest w"
  using extract_release_manifest [of env p z w] by simp

lemma delete_release_cache_manifest [simp]:
  "manifest (delete_release_cache env z w) = manifest w"
  by (simp add: delete_release_cache_def Let_def)

lemma map_of_update_flags:
  "map_of xs k = Some d \<Longrightarrow>
   map (\<lambda>kd. (fst kd, install_alpha (snd kd))) (AList.update k (d\<lparr>version := v\<rparr>) xs)
     = map (\<lambda>kd. (fst kd, install_alpha (snd kd))) xs"
  by (induction xs) (auto split: if_splits)

lemma update_version_flags:
  "update_version m a v = Inr m' \<Longrightarrow> entry_flags m' = entry_flags m"
  by (auto simp: update_version_def entry_flags_def map_of_update_flags split: option.splits)


lemma update_version_lookup:
  "update_version m a v = Inr m' \<Longrightarrow>
     (\<exists>d. map_of (addons m) a = Some d \<and> map_of (addons m') a = Some (d\<lparr>version := v\<rparr>))
     \<and> (\<forall>k. k \<noteq> a \<longrightarrow> map_of (addons m') k = map_of (addons m) k)"
  by (auto simp: update_version_def update_conv' split: option.splits)

lemma process_addon_flags:
  "entry_flags (manifest (snd (process_addon env p g a w))) = entry_flags (manifest w)"
  by (auto simp: process_addon_def Let_def
      split: option.splits sum.splits prod.splits if_splits
      dest!: erase_local_manifest extract_release_eq download_release_eq update_version_flags
        commit_eq)


lemma run_workers_flags:
  "entry_flags (manifest (snd (run_workers env p g ids w))) = entry_flags (manifest w)"
  by (induction ids arbitrary: w) (simp_all add: Let_def process_addon_flags)




lemma commit_log [simp]: "log (snd (commit w)) = log w @ [Manifest_commit]"
  by (simp add: commit_def)








lemma delete_release_cache_log [simp]:
  "log (delete_release_cache env z w) = log w @ [Remove z]"
  by (simp add: delete_release_cache_def Let_def)







subsection \<open>Running the program\<close>

lemma load42: "load_manifest fs42 ''/wow/AddOns'' = Inr m42"
  by code_simp

lemma load7: "load_manifest fs7 ''/wow/AddOns'' = Inr m7"
  by code_simp

lemma sel7:
  "get_latest_file (isoparse env0) classic_only_info False ''wow_retail'' = Inr None"
  by code_simp

lemma process_addon_no_candidate:
  assumes "map_of (addons (manifest w)) a = Some d"
    and "get_addon_info env a = Inr info"
    and "get_latest_file (isoparse env) info (install_alpha d) g = Inr None"
  shows "process_addon env p g a w = (Crashed TypeError, emit [Api_addon a] w)"
  using assms by (simp add: process_addon_def get_version_def)

lemma main_no_candidate:
  "main env0 ''/wow/AddOns'' False ''wow_retail'' fs7
     = Inr ([(7, Crashed TypeError)],
            \<lparr>manifest = m7\<lparr>manifest_version := Some ''2020-05-01''\<rparr>, files = fs7,
             log = [Api_timestamp, Thread_start 7, Api_addon 7]\<rparr>)"
proof -
  have v: "get_addon_database_version env0 = Inr ''2020-05-01''"
    by (simp add: get_addon_database_version_def env0_def)
  have i: "get_addon_info env0 7 = Inr classic_only_info"
    by (simp add: get_addon_info_def env0_def catalog0_def)
  have a: "addons m7 = [(7, \<lparr>install_alpha = False, version = ''1_0''\<rparr>)]"
    "manifest_version m7 = Some ''2020-04-01''"
    by (simp_all add: m7_def m42_def)
  show ?thesis
    by (simp add: main_def load7 v a Let_def process_addon_def i sel7 get_version_def emit_def)
qed

text \<open>
  Claim C1 asks that an addon with no applicable release ends as up to date. In the code
  \<^verbatim>\<open>process_addon\<close> passes the \<^verbatim>\<open>None\<close> of \<^verbatim>\<open>get_latest_file\<close> to \<^verbatim>\<open>get_version\<close>,
  which subscripts it: the thread ends with \<^verbatim>\<open>TypeError\<close>. Addon 7 has a classic release
  only and is processed for the retail flavor; the manifest and the files stay as they
  were, and the run as a whole ends normally with that thread crashed.
\<close>

theorem no_candidate_crashes:
  "get_latest_file (isoparse env0) classic_only_info False ''wow_retail'' = Inr None
   \<and> process_addon env0 ''/wow/AddOns'' ''wow_retail'' 7 \<lparr>manifest = m7, files = fs7, log = []\<rparr>
       = (Crashed TypeError, \<lparr>manifest = m7, files = fs7, log = [Api_addon 7]\<rparr>)
   \<and> main env0 ''/wow/AddOns'' False ''wow_retail'' fs7
       = Inr ([(7, Crashed TypeError)],
              \<lparr>manifest = m7\<lparr>manifest_version := Some ''2020-05-01''\<rparr>, files = fs7,
               log = [Api_timestamp, Thread_start 7, Api_addon 7]\<rparr>)"
proof -
  have "map_of (addons (manifest \<lparr>manifest = m7, files = fs7, log = []\<rparr>)) 7
          = Some \<lparr>install_alpha = False, version = ''1_0''\<rparr>"
    by (simp add: m7_def)
  moreover have "get_addon_info env0 7 = Inr classic_only_info"
    by (simp add: get_addon_info_def env0_def catalog0_def)
  ultimately show ?thesis
    using sel7 process_addon_no_candidate [of "\<lparr>manifest = m7, files = fs7, log = []\<rparr>" 7
        "\<lparr>install_alpha = False, version = ''1_0''\<rparr>" env0 classic_only_info "''wow_retail''" "''/wow/AddOns''"]
    main_no_candidate by (simp add: emit_def)
qed

text \<open>
  Claim C3 asks that a run without a manifest file goes on with an empty manifest. The
  constructor returns an object with no entries and without the attribute
  \<^verbatim>\<open>version\<close>, and the comparison of the catalog versions at the top level then raises
  \<^verbatim>\<open>AttributeError\<close>, with and without the force flag.
\<close>

theorem first_run_crashes:
  "load_manifest Map.empty ''/wow/AddOns''
     = Inr \<lparr>addons = [], manifest_path = ''/wow/AddOns/wau_manifest.txt'', manifest_version = None\<rparr>
   \<and> main env0 ''/wow/AddOns'' False ''wow_retail'' Map.empty = Inl AttributeError
   \<and> main env0 ''/wow/AddOns'' True ''wow_retail'' Map.empty = Inl AttributeError"
  by (simp add: main_def load_manifest_def WAU_Manifest_init_def get_addon_database_version_def env0_def)

text \<open>
  Claim C9. When the manifest loads, the catalog version equals the stored one and the
  force flag is not set, the program exits normally with no thread started: the only
  call that left the process is the query of the catalog version, and the manifest and
  the files are as loaded.
\<close>

theorem fast_path:
  assumes "load_manifest fs p = Inr m"
    and "get_addon_database_version env = Inr v"
    and "manifest_version m = Some v"
    and "\<not> forced_update"
  shows "main env p forced_update g fs = Inr ([], \<lparr>manifest = m, files = fs, log = [Api_timestamp]\<rparr>)"
  using assms by (simp add: main_def)

theorem fast_path_witness:
  "load_manifest fs42 ''/wow/AddOns'' = Inr m42
   \<and> get_addon_database_version env_same = Inr ''2020-04-01''
   \<and> manifest_version m42 = Some ''2020-04-01''
   \<and> main env_same ''/wow/AddOns'' False ''wow_retail'' fs42
       = Inr ([], \<lparr>manifest = m42, files = fs42, log = [Api_timestamp]\<rparr>)"
proof -
  have v: "get_addon_database_version env_same = Inr ''2020-04-01''"
    by (simp add: get_addon_database_version_def env_same_def env0_def)
  have s: "manifest_version m42 = Some ''2020-04-01''"
    by (simp add: m42_def)
  from fast_path [OF load42 v s, of False "''wow_retail''"] load42 v s show ?thesis by simp
qed



lemma main_Inr:
  assumes "main env p forced g fs = Inr (outs, w)"
  obtains m v v0 where "load_manifest fs p = Inr m" "get_addon_database_version env = Inr v"
    "manifest_version m = Some v0"
    "(v = v0 \<and> \<not> forced \<and> outs = [] \<and> w = \<lparr>manifest = m, files = fs, log = [Api_timestamp]\<rparr>)
     \<or> (\<not> (v = v0 \<and> \<not> forced) \<and> (outs, w) = run_workers env p g (map fst (addons m))
           \<lparr>manifest = m\<lparr>manifest_version := Some v\<rparr>, files = fs, log = [Api_timestamp]\<rparr>)"
  using assms
  by (auto simp: main_def Let_def split: sum.splits option.splits if_splits)























lemma main_flags:
  assumes "main env p forced g fs = Inr (outs, w)"
  shows "\<exists>m. load_manifest fs p = Inr m \<and> entry_flags (manifest w) = entry_flags m"
proof -
  from assms obtain m v v0 where m: "load_manifest fs p = Inr m"
    and c: "(v = v0 \<and> \<not> forced \<and> outs = [] \<and> w = \<lparr>manifest = m, files = fs, log = [Api_timestamp]\<rparr>)
     \<or> (\<not> (v = v0 \<and> \<not> forced) \<and> (outs, w) = run_workers env p g (map fst (addons m))
           \<lparr>manifest = m\<lparr>manifest_version := Some v\<rparr>, files = fs, log = [Api_timestamp]\<rparr>)"
    by (rule main_Inr)
  from c have "entry_flags (manifest w) = entry_flags m"
  proof
    assume "v = v0 \<and> \<not> forced \<and> outs = [] \<and> w = \<lparr>manifest = m, files = fs, log = [Api_timestamp]\<rparr>"
    then show ?thesis by simp
  next
    let ?w0 = "\<lparr>manifest = m\<lparr>manifest_version := Some v\<rparr>, files = fs, log = [Api_timestamp]\<rparr>"
    assume "\<not> (v = v0 \<and> \<not> forced) \<and> (outs, w) = run_workers env p g (map fst (addons m)) ?w0"
    then have "w = snd (run_workers env p g (map fst (addons m)) ?w0)"
      by (metis snd_conv)
    then show ?thesis using run_workers_flags [of env p g "map fst (addons m)" ?w0]
      by (simp add: entry_flags_def)
  qed
  with m show ?thesis by blast
qed

text \<open>
  Claim C10. \<^verbatim>\<open>update_version\<close> changes the version of the named entry and nothing else
  of the entry map; \<^verbatim>\<open>commit\<close> leaves the manifest in memory as it is; and
  \<^verbatim>\<open>process_addon\<close>, the threads of a run and the whole program keep the identifiers of
  the manifest and their \<^verbatim>\<open>install_alpha\<close> flags, in their order.
\<close>

theorem entry_map_frame:
  "(\<forall>m'. update_version m a v = Inr m' \<longrightarrow>
      entry_flags m' = entry_flags m
      \<and> (\<exists>d. map_of (addons m) a = Some d \<and> map_of (addons m') a = Some (d\<lparr>version := v\<rparr>))
      \<and> (\<forall>k. k \<noteq> a \<longrightarrow> map_of (addons m') k = map_of (addons m) k))
   \<and> manifest (snd (commit w)) = manifest w
   \<and> entry_flags (manifest (snd (process_addon env p g a w))) = entry_flags (manifest w)
   \<and> entry_flags (manifest (snd (run_workers env p g ids w))) = entry_flags (manifest w)
   \<and> (\<forall>outs w'. main env p forced g fs = Inr (outs, w') \<longrightarrow>
        (\<exists>m0. load_manifest fs p = Inr m0 \<and> entry_flags (manifest w') = entry_flags m0))"
proof (intro conjI allI impI)
  fix m' assume u: "update_version m a v = Inr m'"
  show "entry_flags m' = entry_flags m" by (rule update_version_flags [OF u])
  show "\<exists>d. map_of (addons m) a = Some d \<and> map_of (addons m') a = Some (d\<lparr>version := v\<rparr>)"
    using update_version_lookup [OF u] by blast
next
  fix m' k assume u: "update_version m a v = Inr m'" and "k \<noteq> a"
  then show "map_of (addons m') k = map_of (addons m) k"
    using update_version_lookup [OF u] by blast
next
  show "manifest (snd (commit w)) = manifest w" by (rule commit_manifest)
  show "entry_flags (manifest (snd (process_addon env p g a w))) = entry_flags (manifest w)"
    by (rule process_addon_flags)
  show "entry_flags (manifest (snd (run_workers env p g ids w))) = entry_flags (manifest w)"
    by (rule run_workers_flags)
next
  fix outs w' assume "main env p forced g fs = Inr (outs, w')"
  then show "\<exists>m0. load_manifest fs p = Inr m0 \<and> entry_flags (manifest w') = entry_flags m0"
    by (rule main_flags)
qed

lemma main_update:
  "fst (projr (main env0 ''/wow/AddOns'' False ''wow_retail'' fs42)) = [(42, Done)]
   \<and> manifest (snd (projr (main env0 ''/wow/AddOns'' False ''wow_retail'' fs42))) = m42_new
   \<and> files (snd (projr (main env0 ''/wow/AddOns'' False ''wow_retail'' fs42))) ''/wow/AddOns/wau_manifest.txt''
       = Some (''2020-05-01'' @ [LF] @ ''42 0 1_1'' @ [LF])"
  by code_simp

theorem entry_map_frame_witness:
  "update_version m42 42 ''1_1'' = Inr (m42\<lparr>addons := [(42, \<lparr>install_alpha = False, version = ''1_1''\<rparr>)]\<rparr>)
   \<and> entry_flags (m42\<lparr>addons := [(42, \<lparr>install_alpha = False, version = ''1_1''\<rparr>)]\<rparr>)
       = entry_flags m42
   \<and> entry_flags m42 = [(42, False)]
   \<and> main env0 ''/wow/AddOns'' False ''wow_retail'' fs42
       = Inr (projr (main env0 ''/wow/AddOns'' False ''wow_retail'' fs42))
   \<and> entry_flags (manifest (snd (projr (main env0 ''/wow/AddOns'' False ''wow_retail'' fs42))))
       = entry_flags m42"
proof -
  let ?m = "m42\<lparr>addons := [(42, \<lparr>install_alpha = False, version = ''1_1''\<rparr>)]\<rparr>"
  let ?run = "main env0 ''/wow/AddOns'' False ''wow_retail'' fs42"
  have u: "update_version m42 42 ''1_1'' = Inr ?m"
    by (simp add: update_version_def m42_def)
  have f: "entry_flags m42 = [(42, False)]"
    by (simp add: entry_flags_def m42_def)
  have "\<not> isl ?run"
    by code_simp
  then have r: "?run = Inr (fst (projr ?run), snd (projr ?run))"
    by simp
  note frame = entry_map_frame [where m = m42 and a = 42 and v = "''1_1''" and env = env0
      and p = "''/wow/AddOns''" and g = "''wow_retail''" and forced = False and fs = fs42]
  from frame u have "entry_flags ?m = entry_flags m42" by blast
  moreover from frame r load42
  have "entry_flags (manifest (snd (projr ?run))) = entry_flags m42" by fastforce
  ultimately show ?thesis using u f r by simp
qed

end
